theory Spec2Isabelle
  imports Main "HOL-Library.Sublist"
begin

section \<open>JavaScript values\<close>

text \<open>
  The handler of \<^verbatim>\<open>supabase/functions/chat-with-ai/index.ts\<close> works on values that come
  out of \<^verbatim>\<open>JSON.parse\<close> (the request body, the upstream payload) and goes through them with
  property access, truthiness tests and \<^verbatim>\<open>JSON.stringify\<close>. This section gives these
  operations of the language; the handler follows in the next sections.

  A number is a double: \<open>Finite s m e\<close> stands for \<open>(-1)^s * m * 2^e\<close> (so both zeros are
  there, as \<open>Finite False 0 e\<close> and \<open>Finite True 0 e\<close>), next to the infinities and NaN.
  A string is its list of code units; the model has the code units below 256.
  An object is the list of its properties in their order, each key once, as
  \<^verbatim>\<open>JSON.parse\<close> builds it.
\<close>

datatype number = Finite bool nat int | Infinity bool | NaN

datatype js =
    JUndefined
  | JNull
  | JBool bool
  | JNum number
  | JStr string
  | JArr "js list"
  | JObj "(string \<times> js) list"

text \<open>What a \<^verbatim>\<open>throw\<close> or a rejected promise carries.\<close>

datatype exn =
    TypeError
  | Error string
  | Rejected string

text \<open>\<^verbatim>\<open>ToBoolean\<close>: what \<^verbatim>\<open>!v\<close>, \<^verbatim>\<open>a && b\<close> and \<^verbatim>\<open>if (v)\<close> test.\<close>

fun truthy :: "js \<Rightarrow> bool" where
  "truthy JUndefined = False"
| "truthy JNull = False"
| "truthy (JBool b) = b"
| "truthy (JNum (Finite s m e)) = (m \<noteq> 0)"
| "truthy (JNum (Infinity s)) = True"
| "truthy (JNum NaN) = False"
| "truthy (JStr s) = (s \<noteq> [])"
| "truthy (JArr xs) = True"
| "truthy (JObj kvs) = True"

text \<open>Decimal numerals, as a template string prints an integer and as an index names a property.\<close>

fun show_nat :: "nat \<Rightarrow> string" where
  "show_nat n =
     (if n < 10 then [''0123456789'' ! n]
      else show_nat (n div 10) @ [''0123456789'' ! (n mod 10)])"

declare show_nat.simps [simp del]

text \<open>
  Property access. \<^verbatim>\<open>v.name\<close> is \<open>get_prop v (Name ''name'')\<close> and \<^verbatim>\<open>v[0]\<close> is
  \<open>get_prop v (Index 0)\<close>. Reading a property of \<^verbatim>\<open>undefined\<close> or \<^verbatim>\<open>null\<close> throws a
  TypeError; every other value answers, with \<^verbatim>\<open>undefined\<close> for a property it does not have.
  Only own properties (and \<^verbatim>\<open>length\<close>) are modelled: none of the names the handler reads
  (\<^verbatim>\<open>message\<close>, \<^verbatim>\<open>candidates\<close>, \<^verbatim>\<open>content\<close>, \<^verbatim>\<open>parts\<close>, \<^verbatim>\<open>text\<close>) is inherited from a
  prototype.
\<close>

datatype key = Name string | Index nat

fun key_string :: "key \<Rightarrow> string" where
  "key_string (Name s) = s"
| "key_string (Index n) = show_nat n"

fun lookup :: "(string \<times> js) list \<Rightarrow> string \<Rightarrow> js" where
  "lookup [] k = JUndefined"
| "lookup ((k', v) # kvs) k = (if k' = k then v else lookup kvs k)"

fun get_prop :: "js \<Rightarrow> key \<Rightarrow> exn + js" where
  "get_prop JUndefined k = Inl TypeError"
| "get_prop JNull k = Inl TypeError"
| "get_prop (JBool b) k = Inr JUndefined"
| "get_prop (JNum n) k = Inr JUndefined"
| "get_prop (JStr s) (Index i) = Inr (if i < length s then JStr [s ! i] else JUndefined)"
| "get_prop (JStr s) (Name n) =
     Inr (if n = ''length'' then JNum (Finite False (length s) 0) else JUndefined)"
| "get_prop (JArr xs) (Index i) = Inr (if i < length xs then xs ! i else JUndefined)"
| "get_prop (JArr xs) (Name n) =
     Inr (if n = ''length'' then JNum (Finite False (length xs) 0) else JUndefined)"
| "get_prop (JObj kvs) k = Inr (lookup kvs (key_string k))"

text \<open>Sequencing of steps that may throw.\<close>

definition and_then :: "exn + 'a \<Rightarrow> ('a \<Rightarrow> exn + 'b) \<Rightarrow> exn + 'b" where
  "and_then r f = (case r of Inl e \<Rightarrow> Inl e | Inr v \<Rightarrow> f v)"

subsection \<open>JSON.stringify\<close>

text \<open>
  Strings are quoted as \<^verbatim>\<open>QuoteJSONString\<close> does: the quote and the backslash are escaped,
  the control characters get their short escape or \<^verbatim>\<open>\u00xx\<close>. How a finite double prints is
  the runtime's \<^verbatim>\<open>Number::toString\<close>; the serialiser takes it as the parameter \<open>nts\<close>.
  \<^verbatim>\<open>undefined\<close> has no JSON text (\<open>None\<close>): a property holding it is left out of an object,
  and it prints as \<^verbatim>\<open>null\<close> inside an array.
\<close>

definition hex_digit :: "nat \<Rightarrow> char" where
  "hex_digit n = ''0123456789abcdef'' ! (n mod 16)"

definition quote_char :: "char \<Rightarrow> string" where
  \<open>quote_char c =
    (if c = CHR ''"'' then [CHR 0x5C, CHR ''"'']
     else if c = CHR 0x5C then [CHR 0x5C, CHR 0x5C]
     else if c = CHR 0x08 then [CHR 0x5C, CHR ''b'']
     else if c = CHR 0x09 then [CHR 0x5C, CHR ''t'']
     else if c = CHR 0x0A then [CHR 0x5C, CHR ''n'']
     else if c = CHR 0x0C then [CHR 0x5C, CHR ''f'']
     else if c = CHR 0x0D then [CHR 0x5C, CHR ''r'']
     else if (of_char c :: nat) < 32
       then [CHR 0x5C, CHR ''u'', CHR ''0'', CHR ''0'',
             hex_digit (of_char c div 16), hex_digit (of_char c)]
     else [c])\<close>

definition quote :: "string \<Rightarrow> string" where
  \<open>quote s = ''"'' @ concat (map quote_char s) @ ''"''\<close>

fun join :: "string \<Rightarrow> string list \<Rightarrow> string" where
  "join sep [] = []"
| "join sep [x] = x"
| "join sep (x # y # ys) = x @ sep @ join sep (y # ys)"

fun JSON_stringify :: "(number \<Rightarrow> string) \<Rightarrow> js \<Rightarrow> string option"
  and stringify_elems :: "(number \<Rightarrow> string) \<Rightarrow> js list \<Rightarrow> string list"
  and stringify_members :: "(number \<Rightarrow> string) \<Rightarrow> (string \<times> js) list \<Rightarrow> string list"
where
  "JSON_stringify nts JUndefined = None"
| "JSON_stringify nts JNull = Some ''null''"
| "JSON_stringify nts (JBool b) = Some (if b then ''true'' else ''false'')"
| "JSON_stringify nts (JNum (Finite s m e)) = Some (nts (Finite s m e))"
| "JSON_stringify nts (JNum (Infinity s)) = Some ''null''"
| "JSON_stringify nts (JNum NaN) = Some ''null''"
| "JSON_stringify nts (JStr s) = Some (quote s)"
| "JSON_stringify nts (JArr xs) = Some (''['' @ join '','' (stringify_elems nts xs) @ '']'')"
| "JSON_stringify nts (JObj kvs) = Some (''{'' @ join '','' (stringify_members nts kvs) @ ''}'')"
| "stringify_elems nts [] = []"
| "stringify_elems nts (x # xs) =
     (case JSON_stringify nts x of None \<Rightarrow> ''null'' | Some t \<Rightarrow> t) # stringify_elems nts xs"
| "stringify_members nts [] = []"
| "stringify_members nts ((k, v) # kvs) =
     (case JSON_stringify nts v of
        None \<Rightarrow> stringify_members nts kvs
      | Some t \<Rightarrow> (quote k @ '':'' @ t) # stringify_members nts kvs)"

section \<open>The platform: headers, responses, environment, fetch\<close>

type_synonym headers = "(string \<times> string) list"

definition lower_char :: "char \<Rightarrow> char" where
  "lower_char c =
     (case map_of (zip ''ABCDEFGHIJKLMNOPQRSTUVWXYZ'' ''abcdefghijklmnopqrstuvwxyz'') c of
        None \<Rightarrow> c
      | Some l \<Rightarrow> l)"

definition lowercase :: "string \<Rightarrow> string" where
  "lowercase s = map lower_char s"

text \<open>\<^verbatim>\<open>Headers.get\<close>: names compare without case, several values of a name are joined.\<close>

definition header_get :: "headers \<Rightarrow> string \<Rightarrow> string option" where
  "header_get hs name =
     (case filter (\<lambda>h. lowercase (fst h) = lowercase name) hs of
        [] \<Rightarrow> None
      | h # hs' \<Rightarrow> Some (join '', '' (map snd (h # hs'))))"

text \<open>
  An object literal \<^verbatim>\<open>{ ...o, k: v }\<close>: the properties of \<open>o\<close> in their order, \<open>k\<close>
  overwritten in place when \<open>o\<close> has it and added at the end otherwise.
\<close>

fun obj_put :: "string \<Rightarrow> 'v \<Rightarrow> (string \<times> 'v) list \<Rightarrow> (string \<times> 'v) list" where
  "obj_put k v [] = [(k, v)]"
| "obj_put k v ((k', v') # kvs) =
     (if k' = k then (k, v) # kvs else (k', v') # obj_put k v kvs)"

record response_init =
  init_status :: "nat option"
  init_headers :: headers

record response =
  resp_status :: nat
  resp_headers :: headers
  resp_body :: "string option"

text \<open>
  \<^verbatim>\<open>new Response(body, init)\<close>: the status is 200 unless \<open>init\<close> gives one, and a string
  body brings its own content type when \<open>init\<close> names none.
\<close>

definition new_Response :: "string option \<Rightarrow> response_init \<Rightarrow> response" where
  "new_Response body init =
     \<lparr> resp_status = (case init_status init of None \<Rightarrow> 200 | Some s \<Rightarrow> s),
       resp_headers =
         (case body of
            None \<Rightarrow> init_headers init
          | Some b \<Rightarrow>
              if header_get (init_headers init) ''content-type'' = None
              then init_headers init @ [(''content-type'', ''text/plain;charset=UTF-8'')]
              else init_headers init),
       resp_body = body \<rparr>"

record fetch_request =
  fetch_url :: string
  fetch_method :: string
  fetch_headers :: headers
  fetch_body :: "string option"

text \<open>
  What the handler reads of the upstream's answer: \<^verbatim>\<open>ok\<close>, \<^verbatim>\<open>status\<close> and the outcome
  of \<^verbatim>\<open>json()\<close>.
\<close>

record fetch_response =
  up_ok :: bool
  up_status :: nat
  up_json :: "exn + js"

text \<open>
  The request as the handler sees it: \<^verbatim>\<open>req.method\<close> and the outcome of
  \<^verbatim>\<open>req.json()\<close>, which rejects on an absent or malformed body.
\<close>

record request =
  req_method :: string
  req_json :: "exn + js"

text \<open>
  The request as it arrives: its method, and what reading the bytes of its body as JSON
  gives (\<open>Inl\<close> for an absent or malformed body). The runtime builds from it the
  \<^verbatim>\<open>Request\<close> that it hands to the handler. A \<^verbatim>\<open>Request\<close> of method GET or HEAD has no
  body, whatever was sent with it, so its \<^verbatim>\<open>json()\<close> rejects as on an empty body.
\<close>

record http_request =
  http_method :: string
  http_body :: "exn + js"

definition incoming :: "http_request \<Rightarrow> request" where
  "incoming w =
     \<lparr> req_method = http_method w,
       req_json =
         (if http_method w = ''GET'' \<or> http_method w = ''HEAD''
          then Inl (Rejected ''Unexpected end of JSON input'')
          else http_body w) \<rparr>"

text \<open>
  The surroundings of one invocation: \<^verbatim>\<open>Deno.env.get\<close>, \<^verbatim>\<open>fetch\<close> (a rejected promise
  is \<open>Inl\<close>) and the runtime's printing of numbers.
\<close>

record platform =
  env_get :: "string \<Rightarrow> string option"
  fetch :: "fetch_request \<Rightarrow> exn + fetch_response"
  number_to_string :: "number \<Rightarrow> string"

text \<open>What an invocation does besides answering, in the order it happens.\<close>

datatype effect =
    Fetch fetch_request
  | ConsoleError string "exn option"
  | ConsoleLog string js

record outcome =
  out_response :: response
  out_effects :: "effect list"

section \<open>The handler\<close>

text \<open>
  The module keeps one binding across invocations, the object \<^verbatim>\<open>corsHeaders\<close>.
  The handler takes the module's state and gives it back, so that what one invocation
  leaves to the next is visible.
\<close>

record module =
  corsHeaders :: headers

definition module_init :: module where
  "module_init =
     \<lparr> corsHeaders =
         [(''Access-Control-Allow-Origin'', ''*''),
          (''Access-Control-Allow-Headers'',
           ''authorization, x-client-info, apikey, content-type'')] \<rparr>"

text \<open>
  \<^verbatim>\<open>new Response(JSON.stringify(v), { status, headers: { ...corsHeaders,
  'Content-Type': 'application/json' } })\<close>, the shape of every answer of the try block.
\<close>

definition json_response :: "platform \<Rightarrow> module \<Rightarrow> nat option \<Rightarrow> js \<Rightarrow> response" where
  "json_response p m st v =
     new_Response (JSON_stringify (number_to_string p) v)
       \<lparr> init_status = st,
         init_headers = obj_put ''Content-Type'' ''application/json'' (corsHeaders m) \<rparr>"

text \<open>The call to the Gemini API (lines 43 to 55).\<close>

definition gemini_request :: "platform \<Rightarrow> string \<Rightarrow> js \<Rightarrow> fetch_request" where
  "gemini_request p geminiApiKey message =
     \<lparr> fetch_url =
         ''https://generativelanguage.googleapis.com/v1beta/models/gemini-pro:generateContent?key=''
         @ geminiApiKey,
       fetch_method = ''POST'',
       fetch_headers = [(''Content-Type'', ''application/json'')],
       fetch_body =
         JSON_stringify (number_to_string p)
           (JObj [(''contents'',
              JArr [JObj [(''parts'', JArr [JObj [(''text'', message)]])]])]) \<rparr>"

text \<open>The text of the answer (lines 64 to 68).\<close>

definition fallback_text :: string where
  "fallback_text = ''I'm sorry, I couldn't generate a response at this time.''"

definition extract_text :: "js \<Rightarrow> exn + js" where
  "extract_text geminiData =
     and_then (get_prop geminiData (Name ''candidates'')) (\<lambda>candidates.
       if \<not> truthy candidates then Inr (JStr fallback_text)
       else and_then (get_prop candidates (Index 0)) (\<lambda>candidate.
         if \<not> truthy candidate then Inr (JStr fallback_text)
         else and_then (get_prop candidate (Name ''content'')) (\<lambda>content.
           if \<not> truthy content then Inr (JStr fallback_text)
           else and_then (get_prop content (Name ''parts'')) (\<lambda>parts.
             and_then (get_prop parts (Index 0)) (\<lambda>part.
               get_prop part (Name ''text''))))))"

definition config_text :: string where
  "config_text = ''I'm sorry, but the AI service is not properly configured. Please contact the administrator to set up the Gemini API key.''"

definition error_text :: string where
  "error_text = ''I'm sorry, I encountered an error while processing your message. Please try again.''"

text \<open>
  The body of the \<^verbatim>\<open>try\<close> (lines 16 to 75): the effects so far, and either the
  response returned or what was thrown.
\<close>

definition try_block :: "platform \<Rightarrow> module \<Rightarrow> request \<Rightarrow> effect list \<times> (exn + response)" where
  "try_block p m req =
     (case and_then (req_json req) (\<lambda>data. get_prop data (Name ''message'')) of
        Inl e \<Rightarrow> ([], Inl e)
      | Inr message \<Rightarrow>
          if \<not> truthy message
          then ([], Inr (json_response p m (Some 400)
                          (JObj [(''error'', JStr ''Message is required'')])))
          else
            (case env_get p ''GEMINI_API_KEY'' of
               None \<Rightarrow>
                 ([ConsoleError ''GEMINI_API_KEY not found in environment variables'' None],
                  Inr (json_response p m None (JObj [(''response'', JStr config_text)])))
             | Some geminiApiKey \<Rightarrow>
                 if geminiApiKey = []
                 then
                   ([ConsoleError ''GEMINI_API_KEY not found in environment variables'' None],
                    Inr (json_response p m None (JObj [(''response'', JStr config_text)])))
                 else
                   (case fetch p (gemini_request p geminiApiKey message) of
                      Inl e \<Rightarrow> ([Fetch (gemini_request p geminiApiKey message)], Inl e)
                    | Inr geminiResponse \<Rightarrow>
                        if \<not> up_ok geminiResponse
                        then
                          ([Fetch (gemini_request p geminiApiKey message)],
                           Inl (Error (''Gemini API error: ''
                                       @ show_nat (up_status geminiResponse))))
                        else
                          (case up_json geminiResponse of
                             Inl e \<Rightarrow> ([Fetch (gemini_request p geminiApiKey message)], Inl e)
                           | Inr geminiData \<Rightarrow>
                               ([Fetch (gemini_request p geminiApiKey message),
                                 ConsoleLog ''Gemini API response:'' geminiData],
                                (case extract_text geminiData of
                                   Inl e \<Rightarrow> Inl e
                                 | Inr text \<Rightarrow>
                                     Inr (json_response p m None
                                            (JObj [(''response'', text)]))))))))"

text \<open>The handler given to \<^verbatim>\<open>serve\<close> (lines 9 to 89).\<close>

definition handler :: "platform \<Rightarrow> module \<Rightarrow> request \<Rightarrow> outcome \<times> module" where
  "handler p m req =
     (if req_method req = ''OPTIONS''
      then
        (\<lparr> out_response =
             new_Response (Some ''ok'') \<lparr> init_status = None, init_headers = corsHeaders m \<rparr>,
           out_effects = [] \<rparr>, m)
      else
        (case try_block p m req of
           (effs, Inr r) \<Rightarrow> (\<lparr> out_response = r, out_effects = effs \<rparr>, m)
         | (effs, Inl e) \<Rightarrow>
             (\<lparr> out_response =
                  json_response p m (Some 500) (JObj [(''response'', JStr error_text)]),
                out_effects = effs @ [ConsoleError ''Error in chat-with-ai function:'' (Some e)] \<rparr>,
              m)))"

text \<open>\<^verbatim>\<open>serve\<close>: the requests of a run, one after the other on the module's state.\<close>

fun serve :: "platform \<Rightarrow> module \<Rightarrow> request list \<Rightarrow> outcome list" where
  "serve p m [] = []"
| "serve p m (req # reqs) = fst (handler p m req) # serve p (snd (handler p m req)) reqs"

definition upstream_calls :: "outcome \<Rightarrow> fetch_request list" where
  "upstream_calls out = concat (map (\<lambda>e. case e of Fetch c \<Rightarrow> [c] | _ \<Rightarrow> []) (out_effects out))"

text \<open>
  The headers of \<^verbatim>\<open>{ ...corsHeaders, 'Content-Type': 'application/json' }\<close> on the
  module's initial state (lemma \<open>json_response_init\<close> below).
\<close>

definition json_headers :: headers where
  "json_headers =
     [(''Access-Control-Allow-Origin'', ''*''),
      (''Access-Control-Allow-Headers'', ''authorization, x-client-info, apikey, content-type''),
      (''Content-Type'', ''application/json'')]"

text \<open>
  A platform for concrete runs: a fixed environment and an upstream that gives the same
  answer to every call. The only numbers in the runs below are zeros, which print as
  \<^verbatim>\<open>0\<close>.
\<close>

definition stub_platform :: "(string \<Rightarrow> string option) \<Rightarrow> (exn + fetch_response) \<Rightarrow> platform" where
  "stub_platform env answer =
     \<lparr> env_get = env, fetch = (\<lambda>call. answer), number_to_string = (\<lambda>n. ''0'') \<rparr>"

section \<open>Facts about the platform and the answers of the handler\<close>

lemma handler_module: "snd (handler p m req) = m"
  by (simp add: handler_def split: prod.splits sum.splits)

lemma handler_method:
  "req_method req \<noteq> ''OPTIONS'' \<Longrightarrow>
     handler p m (req \<lparr> req_method := ''POST'' \<rparr>) = handler p m req"
  by (simp add: handler_def try_block_def)

lemma json_response_init:
  "json_response p module_init st v =
     \<lparr> resp_status = (case st of None \<Rightarrow> 200 | Some s \<Rightarrow> s),
       resp_headers = json_headers,
       resp_body = JSON_stringify (number_to_string p) v \<rparr>"
  by (simp add: json_response_def new_Response_def module_init_def header_get_def
      lowercase_def lower_char_def json_headers_def split: option.splits)

lemma options_response_init:
  "new_Response (Some ''ok'') \<lparr> init_status = None, init_headers = corsHeaders module_init \<rparr> =
     \<lparr> resp_status = 200,
       resp_headers =
         [(''Access-Control-Allow-Origin'', ''*''),
          (''Access-Control-Allow-Headers'',
           ''authorization, x-client-info, apikey, content-type''),
          (''content-type'', ''text/plain;charset=UTF-8'')],
       resp_body = Some ''ok'' \<rparr>"
  by (simp add: new_Response_def module_init_def header_get_def lowercase_def lower_char_def)

lemma message_required_response:
  \<open>json_response p module_init (Some 400) (JObj [(''error'', JStr ''Message is required'')]) =
     \<lparr> resp_status = 400, resp_headers = json_headers,
       resp_body = Some ''{"error":"Message is required"}'' \<rparr>\<close>
  by (simp add: json_response_init quote_def quote_char_def)

lemma config_response:
  \<open>json_response p module_init None (JObj [(''response'', JStr config_text)]) =
     \<lparr> resp_status = 200, resp_headers = json_headers,
       resp_body = Some ''{"response":"I'm sorry, but the AI service is not properly configured. Please contact the administrator to set up the Gemini API key."}'' \<rparr>\<close>
  by (simp add: json_response_init quote_def quote_char_def config_text_def)

lemma error_response:
  \<open>json_response p module_init (Some 500) (JObj [(''response'', JStr error_text)]) =
     \<lparr> resp_status = 500, resp_headers = json_headers,
       resp_body = Some ''{"response":"I'm sorry, I encountered an error while processing your message. Please try again."}'' \<rparr>\<close>
  by (simp add: json_response_init quote_def quote_char_def error_text_def)

lemma fallback_response:
  \<open>json_response p module_init None (JObj [(''response'', JStr fallback_text)]) =
     \<lparr> resp_status = 200, resp_headers = json_headers,
       resp_body = Some ''{"response":"I'm sorry, I couldn't generate a response at this time."}'' \<rparr>\<close>
  by (simp add: json_response_init quote_def quote_char_def fallback_text_def)

lemma text_response:
  \<open>json_response p module_init None (JObj [(''response'', JStr t)]) =
     \<lparr> resp_status = 200, resp_headers = json_headers,
       resp_body = Some (''{"response":'' @ quote t @ ''}'') \<rparr>\<close>
  by (simp add: json_response_init quote_def quote_char_def)

lemma config_text_mentions:
  "sublist ''configured'' config_text \<and> sublist ''administrator'' config_text"
proof
  have "config_text =
      ''I'm sorry, but the AI service is not properly '' @ ''configured''
      @ ''. Please contact the administrator to set up the Gemini API key.''"
    by (simp add: config_text_def)
  then show "sublist ''configured'' config_text"
    unfolding sublist_def by blast
  have "config_text =
      ''I'm sorry, but the AI service is not properly configured. Please contact the ''
      @ ''administrator'' @ '' to set up the Gemini API key.''"
    by (simp add: config_text_def)
  then show "sublist ''administrator'' config_text"
    unfolding sublist_def by blast
qed

lemma try_block_headers:
  "try_block p module_init req = (effs, Inr r) \<Longrightarrow> resp_headers r = json_headers"
  by (auto simp add: try_block_def json_response_init
      split: sum.splits if_splits option.splits)

lemma handler_headers:
  "req_method req \<noteq> ''OPTIONS'' \<Longrightarrow>
     resp_headers (out_response (fst (handler p module_init req))) = json_headers"
  by (auto simp add: handler_def json_response_init try_block_headers
      split: prod.splits sum.splits)

lemma json_headers_get:
  "header_get json_headers ''Access-Control-Allow-Origin'' = Some ''*''"
  "header_get json_headers ''Access-Control-Allow-Headers'' =
     Some ''authorization, x-client-info, apikey, content-type''"
  "header_get json_headers ''Content-Type'' = Some ''application/json''"
  by (simp_all add: header_get_def json_headers_def lowercase_def lower_char_def)

section \<open>The claims\<close>

text \<open>
  C6. A request whose method is OPTIONS is answered with status 200, the plain-text body
  \<open>ok\<close> and the CORS headers, whatever its body is, and before anything else happens:
  the answer depends neither on the outcome of \<^verbatim>\<open>req.json()\<close> nor on the platform, and
  the invocation has no effect.
\<close>

theorem options_preflight:
  assumes "req_method req = ''OPTIONS''"
  shows "handler p module_init req =
    (\<lparr> out_response =
         \<lparr> resp_status = 200,
           resp_headers =
             [(''Access-Control-Allow-Origin'', ''*''),
              (''Access-Control-Allow-Headers'',
               ''authorization, x-client-info, apikey, content-type''),
              (''content-type'', ''text/plain;charset=UTF-8'')],
           resp_body = Some ''ok'' \<rparr>,
       out_effects = [] \<rparr>, module_init)"
  using assms by (simp add: handler_def options_response_init)

theorem options_preflight_witness:
  "handler (stub_platform Map.empty (Inl (Rejected ''down''))) module_init
      \<lparr> req_method = ''OPTIONS'', req_json = Inl (Rejected ''Unexpected end of JSON input'') \<rparr> =
    (\<lparr> out_response =
         \<lparr> resp_status = 200,
           resp_headers =
             [(''Access-Control-Allow-Origin'', ''*''),
              (''Access-Control-Allow-Headers'',
               ''authorization, x-client-info, apikey, content-type''),
              (''content-type'', ''text/plain;charset=UTF-8'')],
           resp_body = Some ''ok'' \<rparr>,
       out_effects = [] \<rparr>, module_init)"
  using options_preflight
    [where req = "\<lparr> req_method = ''OPTIONS'',
                    req_json = Inl (Rejected ''Unexpected end of JSON input'') \<rparr>"
       and p = "stub_platform Map.empty (Inl (Rejected ''down''))"]
  by simp

text \<open>
  C9. As stated the claim fails: the handler tests the method against OPTIONS and nothing
  else, but a request of method GET or HEAD reaches it without a body, so its
  \<^verbatim>\<open>req.json()\<close> rejects and the answer is the 500 of the catch branch, where the same
  body sent with POST is answered with 200 (counterexample below). What holds: a request
  whose method is none of OPTIONS, GET and HEAD is handled exactly as the same request
  sent with POST.
\<close>

theorem method_as_post:
  assumes "http_method w \<noteq> ''OPTIONS''"
    and "http_method w \<noteq> ''GET''"
    and "http_method w \<noteq> ''HEAD''"
  shows "handler p m (incoming w) = handler p m (incoming (w \<lparr> http_method := ''POST'' \<rparr>))"
proof -
  have "incoming (w \<lparr> http_method := ''POST'' \<rparr>) = (incoming w) \<lparr> req_method := ''POST'' \<rparr>"
    using assms(2,3) by (simp add: incoming_def)
  moreover have "req_method (incoming w) \<noteq> ''OPTIONS''"
    using assms(1) by (simp add: incoming_def)
  ultimately show ?thesis
    by (simp add: handler_method)
qed

theorem method_as_post_witness:
  "handler
      (stub_platform (Map.empty(''GEMINI_API_KEY'' \<mapsto> ''k''))
         (Inr \<lparr> up_ok = True, up_status = 200, up_json = Inr (JObj []) \<rparr>))
      module_init
      (incoming \<lparr> http_method = ''DELETE'',
                  http_body = Inr (JObj [(''message'', JStr ''Hello'')]) \<rparr>) =
   handler
      (stub_platform (Map.empty(''GEMINI_API_KEY'' \<mapsto> ''k''))
         (Inr \<lparr> up_ok = True, up_status = 200, up_json = Inr (JObj []) \<rparr>))
      module_init
      (incoming \<lparr> http_method = ''POST'',
                  http_body = Inr (JObj [(''message'', JStr ''Hello'')]) \<rparr>)"
  using method_as_post
    [where w = "\<lparr> http_method = ''DELETE'',
                  http_body = Inr (JObj [(''message'', JStr ''Hello'')]) \<rparr>"
       and p = "stub_platform (Map.empty(''GEMINI_API_KEY'' \<mapsto> ''k''))
         (Inr \<lparr> up_ok = True, up_status = 200, up_json = Inr (JObj []) \<rparr>)"
       and m = module_init]
  by simp

theorem get_body_counterexample:
  "resp_status (out_response (fst (handler
      (stub_platform (Map.empty(''GEMINI_API_KEY'' \<mapsto> ''k''))
         (Inr \<lparr> up_ok = True, up_status = 200, up_json = Inr (JObj []) \<rparr>))
      module_init
      (incoming \<lparr> http_method = ''GET'',
                  http_body = Inr (JObj [(''message'', JStr ''Hello'')]) \<rparr>)))) = 500
   \<and> resp_status (out_response (fst (handler
      (stub_platform (Map.empty(''GEMINI_API_KEY'' \<mapsto> ''k''))
         (Inr \<lparr> up_ok = True, up_status = 200, up_json = Inr (JObj []) \<rparr>))
      module_init
      (incoming \<lparr> http_method = ''POST'',
                  http_body = Inr (JObj [(''message'', JStr ''Hello'')]) \<rparr>)))) = 200"
  by (simp add: handler_def try_block_def and_then_def stub_platform_def extract_text_def
      incoming_def error_response fallback_response)

text \<open>
  C10. When the \<open>message\<close> of the body is falsy (absent, \<^verbatim>\<open>null\<close>, the empty string, and
  also a zero or \<^verbatim>\<open>false\<close>), the answer is status 400 with the body
  \<^verbatim>\<open>{"error":"Message is required"}\<close>, and the upstream is not called.
\<close>

theorem falsy_message_rejected:
  assumes "req_method req \<noteq> ''OPTIONS''"
    and "req_json req = Inr data"
    and "get_prop data (Name ''message'') = Inr message"
    and "\<not> truthy message"
  shows \<open>out_response (fst (handler p module_init req)) =
        \<lparr> resp_status = 400, resp_headers = json_headers,
          resp_body = Some ''{"error":"Message is required"}'' \<rparr>
      \<and> upstream_calls (fst (handler p module_init req)) = []\<close>
  using assms
  by (simp add: handler_def try_block_def and_then_def message_required_response
      upstream_calls_def)

theorem falsy_message_rejected_witness:
  \<open>out_response (fst (handler
       (stub_platform (Map.empty(''GEMINI_API_KEY'' \<mapsto> ''k'')) (Inl (Rejected ''down'')))
       module_init
       \<lparr> req_method = ''POST'',
         req_json = Inr (JObj [(''message'', JNum (Finite False 0 0))]) \<rparr>)) =
        \<lparr> resp_status = 400, resp_headers = json_headers,
          resp_body = Some ''{"error":"Message is required"}'' \<rparr>
    \<and> upstream_calls (fst (handler
       (stub_platform (Map.empty(''GEMINI_API_KEY'' \<mapsto> ''k'')) (Inl (Rejected ''down'')))
       module_init
       \<lparr> req_method = ''POST'',
         req_json = Inr (JObj [(''message'', JNum (Finite False 0 0))]) \<rparr>)) = []\<close>
  using falsy_message_rejected
    [where req = "\<lparr> req_method = ''POST'',
                    req_json = Inr (JObj [(''message'', JNum (Finite False 0 0))]) \<rparr>"
       and data = "JObj [(''message'', JNum (Finite False 0 0))]"
       and message = "JNum (Finite False 0 0)"
       and p = "stub_platform (Map.empty(''GEMINI_API_KEY'' \<mapsto> ''k''))
                  (Inl (Rejected ''down''))"]
  by simp

text \<open>
  C1. As stated the claim fails: a string of white space is not empty, so it is truthy
  and the request goes on to the upstream (counterexample below). What holds is the claim
  without the white space: when \<open>message\<close> is omitted, \<^verbatim>\<open>null\<close> or the empty string, the
  answer is status 400 with the body \<^verbatim>\<open>{"error":"Message is required"}\<close>, and the upstream
  is not called.
\<close>

theorem missing_message_rejected:
  assumes "req_method req \<noteq> ''OPTIONS''"
    and "req_json req = Inr data"
    and "get_prop data (Name ''message'') = Inr message"
    and "message = JUndefined \<or> message = JNull \<or> message = JStr []"
  shows \<open>out_response (fst (handler p module_init req)) =
        \<lparr> resp_status = 400, resp_headers = json_headers,
          resp_body = Some ''{"error":"Message is required"}'' \<rparr>
      \<and> upstream_calls (fst (handler p module_init req)) = []\<close>
proof -
  have "\<not> truthy message"
    using assms(4) by auto
  then have "try_block p module_init req =
      ([], Inr (json_response p module_init (Some 400)
                 (JObj [(''error'', JStr ''Message is required'')])))"
    using assms(2,3) by (simp add: try_block_def and_then_def)
  then show ?thesis
    using assms(1)
    by (simp add: handler_def message_required_response upstream_calls_def)
qed

theorem missing_message_rejected_witness:
  \<open>out_response (fst (handler
       (stub_platform (Map.empty(''GEMINI_API_KEY'' \<mapsto> ''k'')) (Inl (Rejected ''down'')))
       module_init \<lparr> req_method = ''POST'', req_json = Inr (JObj []) \<rparr>)) =
        \<lparr> resp_status = 400, resp_headers = json_headers,
          resp_body = Some ''{"error":"Message is required"}'' \<rparr>
    \<and> upstream_calls (fst (handler
       (stub_platform (Map.empty(''GEMINI_API_KEY'' \<mapsto> ''k'')) (Inl (Rejected ''down'')))
       module_init \<lparr> req_method = ''POST'', req_json = Inr (JObj []) \<rparr>)) = []\<close>
  using missing_message_rejected
    [where req = "\<lparr> req_method = ''POST'', req_json = Inr (JObj []) \<rparr>"
       and data = "JObj []" and message = JUndefined
       and p = "stub_platform (Map.empty(''GEMINI_API_KEY'' \<mapsto> ''k''))
                  (Inl (Rejected ''down''))"]
  by simp

theorem whitespace_message_counterexample:
  \<open>resp_status (out_response (fst (handler
       (stub_platform (Map.empty(''GEMINI_API_KEY'' \<mapsto> ''k''))
          (Inr \<lparr> up_ok = True, up_status = 200, up_json = Inr (JObj []) \<rparr>))
       module_init
       \<lparr> req_method = ''POST'', req_json = Inr (JObj [(''message'', JStr '' '')]) \<rparr>))) \<noteq> 400
    \<and> upstream_calls (fst (handler
       (stub_platform (Map.empty(''GEMINI_API_KEY'' \<mapsto> ''k''))
          (Inr \<lparr> up_ok = True, up_status = 200, up_json = Inr (JObj []) \<rparr>))
       module_init
       \<lparr> req_method = ''POST'', req_json = Inr (JObj [(''message'', JStr '' '')]) \<rparr>)) \<noteq> []\<close>
  by (simp add: handler_def try_block_def and_then_def stub_platform_def extract_text_def
      fallback_response upstream_calls_def)

text \<open>
  C7. When the environment has no \<^verbatim>\<open>GEMINI_API_KEY\<close> and the message is truthy, the
  answer is status 200 with the fixed guidance text as its \<open>response\<close>, whatever the
  message is; the text names the configuration and the administrator, and the upstream is
  not called.
\<close>

theorem missing_credential_guidance:
  assumes "req_method req \<noteq> ''OPTIONS''"
    and "req_json req = Inr data"
    and "get_prop data (Name ''message'') = Inr message"
    and "truthy message"
    and "env_get p ''GEMINI_API_KEY'' = None"
  shows \<open>out_response (fst (handler p module_init req)) =
        \<lparr> resp_status = 200, resp_headers = json_headers,
          resp_body = Some (''{"response":"'' @ config_text @ ''"}'') \<rparr>
      \<and> sublist ''configured'' config_text
      \<and> sublist ''administrator'' config_text
      \<and> upstream_calls (fst (handler p module_init req)) = []\<close>
proof -
  have "try_block p module_init req =
      ([ConsoleError ''GEMINI_API_KEY not found in environment variables'' None],
       Inr (json_response p module_init None (JObj [(''response'', JStr config_text)])))"
    using assms(2-5) by (simp add: try_block_def and_then_def)
  then have \<open>out_response (fst (handler p module_init req)) =
        \<lparr> resp_status = 200, resp_headers = json_headers,
          resp_body = Some ''{"response":"I'm sorry, but the AI service is not properly configured. Please contact the administrator to set up the Gemini API key."}'' \<rparr>
      \<and> upstream_calls (fst (handler p module_init req)) = []\<close>
    using assms(1)
    by (simp add: handler_def config_response upstream_calls_def)
  moreover have \<open>''{"response":"I'm sorry, but the AI service is not properly configured. Please contact the administrator to set up the Gemini API key."}'' = ''{"response":"'' @ config_text @ ''"}''\<close>
    by (simp add: config_text_def)
  ultimately show ?thesis
    using config_text_mentions by simp
qed

theorem missing_credential_guidance_witness:
  \<open>out_response (fst (handler (stub_platform Map.empty (Inl (Rejected ''down''))) module_init
       \<lparr> req_method = ''POST'', req_json = Inr (JObj [(''message'', JStr ''Hello'')]) \<rparr>)) =
        \<lparr> resp_status = 200, resp_headers = json_headers,
          resp_body = Some ''{"response":"I'm sorry, but the AI service is not properly configured. Please contact the administrator to set up the Gemini API key."}'' \<rparr>
    \<and> upstream_calls (fst (handler (stub_platform Map.empty (Inl (Rejected ''down'')))
       module_init
       \<lparr> req_method = ''POST'', req_json = Inr (JObj [(''message'', JStr ''Hello'')]) \<rparr>)) = []\<close>
  using missing_credential_guidance
    [where req = "\<lparr> req_method = ''POST'',
                    req_json = Inr (JObj [(''message'', JStr ''Hello'')]) \<rparr>"
       and data = "JObj [(''message'', JStr ''Hello'')]"
       and message = "JStr ''Hello''"
       and p = "stub_platform Map.empty (Inl (Rejected ''down''))"]
  by (simp add: stub_platform_def config_text_def)

text \<open>
  C5. With a truthy message, a configured credential and an upstream answer that is ok and
  carries a well-formed candidate, the answer is status 200 and its \<open>response\<close> is the
  string at \<^verbatim>\<open>candidates[0].content.parts[0].text\<close> of the payload.
\<close>

theorem candidate_text_returned:
  assumes "req_method req \<noteq> ''OPTIONS''"
    and "req_json req = Inr data"
    and "get_prop data (Name ''message'') = Inr message"
    and "truthy message"
    and "env_get p ''GEMINI_API_KEY'' = Some geminiApiKey"
    and "geminiApiKey \<noteq> []"
    and "fetch p (gemini_request p geminiApiKey message) = Inr r"
    and "up_ok r"
    and "up_json r = Inr (JObj payload)"
    and "lookup payload ''candidates'' = JArr (JObj candidate # candidates)"
    and "lookup candidate ''content'' = JObj content"
    and "lookup content ''parts'' = JArr (JObj part # parts)"
    and "lookup part ''text'' = JStr t"
  shows \<open>out_response (fst (handler p module_init req)) =
     \<lparr> resp_status = 200, resp_headers = json_headers,
       resp_body = JSON_stringify (number_to_string p) (JObj [(''response'', JStr t)]) \<rparr>
     \<and> JSON_stringify (number_to_string p) (JObj [(''response'', JStr t)]) =
         Some (''{"response":'' @ quote t @ ''}'')\<close>
proof -
  have "extract_text (JObj payload) = Inr (JStr t)"
    using assms(10-13) by (simp add: extract_text_def and_then_def)
  then have "snd (try_block p module_init req) =
      Inr (json_response p module_init None (JObj [(''response'', JStr t)]))"
    using assms(2-9) by (simp add: try_block_def and_then_def)
  then have "out_response (fst (handler p module_init req)) =
      json_response p module_init None (JObj [(''response'', JStr t)])"
    using assms(1)
    by (cases "try_block p module_init req") (simp add: handler_def)
  then show ?thesis
    by (simp add: json_response_init quote_def quote_char_def)
qed

theorem candidate_text_returned_witness:
  \<open>out_response (fst (handler
       (stub_platform (Map.empty(''GEMINI_API_KEY'' \<mapsto> ''k''))
          (Inr \<lparr> up_ok = True, up_status = 200,
                 up_json = Inr (JObj [(''candidates'',
                   JArr [JObj [(''content'',
                     JObj [(''parts'', JArr [JObj [(''text'', JStr ''Hi there!'')]])])]])]) \<rparr>))
       module_init
       \<lparr> req_method = ''POST'', req_json = Inr (JObj [(''message'', JStr ''Hello'')]) \<rparr>)) =
     \<lparr> resp_status = 200, resp_headers = json_headers,
       resp_body = Some ''{"response":"Hi there!"}'' \<rparr>\<close>
  using candidate_text_returned
    [where req = "\<lparr> req_method = ''POST'',
                    req_json = Inr (JObj [(''message'', JStr ''Hello'')]) \<rparr>"
       and data = "JObj [(''message'', JStr ''Hello'')]"
       and message = "JStr ''Hello''"
       and geminiApiKey = "''k''"
       and p = "stub_platform (Map.empty(''GEMINI_API_KEY'' \<mapsto> ''k''))
          (Inr \<lparr> up_ok = True, up_status = 200,
                 up_json = Inr (JObj [(''candidates'',
                   JArr [JObj [(''content'',
                     JObj [(''parts'', JArr [JObj [(''text'', JStr ''Hi there!'')]])])]])]) \<rparr>)"
       and r = "\<lparr> up_ok = True, up_status = 200,
                 up_json = Inr (JObj [(''candidates'',
                   JArr [JObj [(''content'',
                     JObj [(''parts'', JArr [JObj [(''text'', JStr ''Hi there!'')]])])]])]) \<rparr>"
       and payload = "[(''candidates'',
                   JArr [JObj [(''content'',
                     JObj [(''parts'', JArr [JObj [(''text'', JStr ''Hi there!'')]])])]])]"
       and candidate = "[(''content'',
                     JObj [(''parts'', JArr [JObj [(''text'', JStr ''Hi there!'')]])])]"
       and candidates = "[]"
       and content = "[(''parts'', JArr [JObj [(''text'', JStr ''Hi there!'')]])]"
       and part = "[(''text'', JStr ''Hi there!'')]"
       and parts = "[]"
       and t = "''Hi there!''"]
  by (simp add: stub_platform_def quote_def quote_char_def)

text \<open>
  C2. As stated the claim fails: the guard of the handler tests \<open>candidates\<close>,
  \<open>candidates[0]\<close> and \<open>candidates[0].content\<close> and nothing below, so a payload whose
  content has no \<open>parts\<close> makes the extraction throw, and the answer is the 500 of the
  catch branch (counterexample below). What holds is the claim for what the guard tests:
  when the upstream answer is ok, its payload is neither \<^verbatim>\<open>null\<close> nor \<^verbatim>\<open>undefined\<close>, and
  \<open>candidates\<close>, \<open>candidates[0]\<close> or \<open>candidates[0].content\<close> is absent or falsy, the
  answer is status 200 with the fixed fallback sentence as its \<open>response\<close>.
\<close>

theorem missing_candidate_fallback:
  assumes "req_method req \<noteq> ''OPTIONS''"
    and "req_json req = Inr data"
    and "get_prop data (Name ''message'') = Inr message"
    and "truthy message"
    and "env_get p ''GEMINI_API_KEY'' = Some geminiApiKey"
    and "geminiApiKey \<noteq> []"
    and "fetch p (gemini_request p geminiApiKey message) = Inr r"
    and "up_ok r"
    and "up_json r = Inr geminiData"
    and "get_prop geminiData (Name ''candidates'') = Inr candidates"
    and "\<not> truthy candidates
       \<or> (\<exists>candidate. get_prop candidates (Index 0) = Inr candidate
            \<and> (\<not> truthy candidate
               \<or> (\<exists>content. get_prop candidate (Name ''content'') = Inr content
                     \<and> \<not> truthy content)))"
  shows \<open>out_response (fst (handler p module_init req)) =
     \<lparr> resp_status = 200, resp_headers = json_headers,
       resp_body = Some ''{"response":"I'm sorry, I couldn't generate a response at this time."}'' \<rparr>\<close>
proof -
  have "extract_text geminiData = Inr (JStr fallback_text)"
    using assms(10,11) by (auto simp add: extract_text_def and_then_def)
  then have "snd (try_block p module_init req) =
      Inr (json_response p module_init None (JObj [(''response'', JStr fallback_text)]))"
    using assms(2-9) by (simp add: try_block_def and_then_def)
  then show ?thesis
    using assms(1)
    by (cases "try_block p module_init req") (simp add: handler_def fallback_response)
qed

theorem missing_candidate_fallback_witness:
  \<open>out_response (fst (handler
       (stub_platform (Map.empty(''GEMINI_API_KEY'' \<mapsto> ''k''))
          (Inr \<lparr> up_ok = True, up_status = 200,
                 up_json = Inr (JObj [(''candidates'', JArr [])]) \<rparr>))
       module_init
       \<lparr> req_method = ''POST'', req_json = Inr (JObj [(''message'', JStr ''Hello'')]) \<rparr>)) =
     \<lparr> resp_status = 200, resp_headers = json_headers,
       resp_body = Some ''{"response":"I'm sorry, I couldn't generate a response at this time."}'' \<rparr>\<close>
  using missing_candidate_fallback
    [where req = "\<lparr> req_method = ''POST'',
                    req_json = Inr (JObj [(''message'', JStr ''Hello'')]) \<rparr>"
       and data = "JObj [(''message'', JStr ''Hello'')]"
       and message = "JStr ''Hello''"
       and geminiApiKey = "''k''"
       and p = "stub_platform (Map.empty(''GEMINI_API_KEY'' \<mapsto> ''k''))
          (Inr \<lparr> up_ok = True, up_status = 200,
                 up_json = Inr (JObj [(''candidates'', JArr [])]) \<rparr>)"
       and r = "\<lparr> up_ok = True, up_status = 200,
                 up_json = Inr (JObj [(''candidates'', JArr [])]) \<rparr>"
       and geminiData = "JObj [(''candidates'', JArr [])]"
       and candidates = "JArr []"]
  by (simp add: stub_platform_def)

theorem missing_parts_counterexample:
  \<open>resp_status (out_response (fst (handler
       (stub_platform (Map.empty(''GEMINI_API_KEY'' \<mapsto> ''k''))
          (Inr \<lparr> up_ok = True, up_status = 200,
                 up_json = Inr (JObj [(''candidates'',
                   JArr [JObj [(''content'', JObj [(''role'', JStr ''model'')])]])]) \<rparr>))
       module_init
       \<lparr> req_method = ''POST'', req_json = Inr (JObj [(''message'', JStr ''Hello'')]) \<rparr>)))
     = 500\<close>
  by (simp add: handler_def try_block_def and_then_def stub_platform_def extract_text_def
      error_response)

text \<open>
  C4. When the try block throws, the answer is status 500 with the body
  \<^verbatim>\<open>{"response":"I'm sorry, I encountered an error while processing your message. Please try again."}\<close>,
  whatever the cause: \<^verbatim>\<open>req.json()\<close> rejects or gives \<^verbatim>\<open>null\<close>, \<^verbatim>\<open>fetch\<close> rejects, the
  upstream answer is not ok, its \<^verbatim>\<open>json()\<close> rejects, or the extraction of the text throws.
  The field is \<open>response\<close>, and the answer is the same for every cause.
\<close>

theorem failures_give_500:
  assumes "req_method req \<noteq> ''OPTIONS''"
    and "(\<exists>e. req_json req = Inl e)
       \<or> req_json req = Inr JNull
       \<or> (\<exists>data message geminiApiKey.
             req_json req = Inr data
           \<and> get_prop data (Name ''message'') = Inr message \<and> truthy message
           \<and> env_get p ''GEMINI_API_KEY'' = Some geminiApiKey \<and> geminiApiKey \<noteq> []
           \<and> ((\<exists>e. fetch p (gemini_request p geminiApiKey message) = Inl e)
              \<or> (\<exists>r. fetch p (gemini_request p geminiApiKey message) = Inr r
                    \<and> (\<not> up_ok r
                       \<or> (\<exists>e. up_json r = Inl e)
                       \<or> (\<exists>geminiData e. up_json r = Inr geminiData
                             \<and> extract_text geminiData = Inl e)))))"
  shows \<open>out_response (fst (handler p module_init req)) =
     \<lparr> resp_status = 500, resp_headers = json_headers,
       resp_body = Some ''{"response":"I'm sorry, I encountered an error while processing your message. Please try again."}'' \<rparr>\<close>
proof -
  have "\<exists>effs e. try_block p module_init req = (effs, Inl e)"
    using assms(2)
    by (auto simp add: try_block_def and_then_def)
  then show ?thesis
    using assms(1) by (auto simp add: handler_def error_response)
qed

theorem failures_give_500_witness:
  \<open>out_response (fst (handler
       (stub_platform (Map.empty(''GEMINI_API_KEY'' \<mapsto> ''k''))
          (Inr \<lparr> up_ok = False, up_status = 503, up_json = Inl (Rejected ''not JSON'') \<rparr>))
       module_init
       \<lparr> req_method = ''POST'', req_json = Inr (JObj [(''message'', JStr ''Hello'')]) \<rparr>)) =
     \<lparr> resp_status = 500, resp_headers = json_headers,
       resp_body = Some ''{"response":"I'm sorry, I encountered an error while processing your message. Please try again."}'' \<rparr>
   \<and> out_response (fst (handler
       (stub_platform (Map.empty(''GEMINI_API_KEY'' \<mapsto> ''k''))
          (Inr \<lparr> up_ok = False, up_status = 503, up_json = Inl (Rejected ''not JSON'') \<rparr>))
       module_init
       \<lparr> req_method = ''POST'', req_json = Inl (Rejected ''Unexpected token'') \<rparr>)) =
     \<lparr> resp_status = 500, resp_headers = json_headers,
       resp_body = Some ''{"response":"I'm sorry, I encountered an error while processing your message. Please try again."}'' \<rparr>\<close>
proof
  show \<open>out_response (fst (handler
       (stub_platform (Map.empty(''GEMINI_API_KEY'' \<mapsto> ''k''))
          (Inr \<lparr> up_ok = False, up_status = 503, up_json = Inl (Rejected ''not JSON'') \<rparr>))
       module_init
       \<lparr> req_method = ''POST'', req_json = Inr (JObj [(''message'', JStr ''Hello'')]) \<rparr>)) =
     \<lparr> resp_status = 500, resp_headers = json_headers,
       resp_body = Some ''{"response":"I'm sorry, I encountered an error while processing your message. Please try again."}'' \<rparr>\<close>
    by (rule failures_give_500) (simp_all add: stub_platform_def)
  show \<open>out_response (fst (handler
       (stub_platform (Map.empty(''GEMINI_API_KEY'' \<mapsto> ''k''))
          (Inr \<lparr> up_ok = False, up_status = 503, up_json = Inl (Rejected ''not JSON'') \<rparr>))
       module_init
       \<lparr> req_method = ''POST'', req_json = Inl (Rejected ''Unexpected token'') \<rparr>)) =
     \<lparr> resp_status = 500, resp_headers = json_headers,
       resp_body = Some ''{"response":"I'm sorry, I encountered an error while processing your message. Please try again."}'' \<rparr>\<close>
    by (rule failures_give_500) simp_all
qed

text \<open>
  C3. As stated the claim fails: the answer to the preflight is made from \<open>corsHeaders\<close>
  alone and its body is the plain text \<open>ok\<close>, so its content type is not
  \<^verbatim>\<open>application/json\<close> (counterexample below). What holds: every answer carries
  \<^verbatim>\<open>Access-Control-Allow-Origin: *\<close> and
  \<^verbatim>\<open>Access-Control-Allow-Headers: authorization, x-client-info, apikey, content-type\<close>, and
  every answer to a request that is not the preflight also carries
  \<^verbatim>\<open>Content-Type: application/json\<close>.
\<close>

theorem cors_headers_everywhere:
  "header_get (resp_headers (out_response (fst (handler p module_init req))))
      ''Access-Control-Allow-Origin'' = Some ''*''
   \<and> header_get (resp_headers (out_response (fst (handler p module_init req))))
      ''Access-Control-Allow-Headers'' = Some ''authorization, x-client-info, apikey, content-type''
   \<and> (req_method req \<noteq> ''OPTIONS'' \<longrightarrow>
        header_get (resp_headers (out_response (fst (handler p module_init req))))
          ''Content-Type'' = Some ''application/json'')"
proof (cases "req_method req = ''OPTIONS''")
  case True
  then have "resp_headers (out_response (fst (handler p module_init req))) =
      [(''Access-Control-Allow-Origin'', ''*''),
       (''Access-Control-Allow-Headers'', ''authorization, x-client-info, apikey, content-type''),
       (''content-type'', ''text/plain;charset=UTF-8'')]"
    by (simp add: handler_def options_response_init)
  then show ?thesis
    using True by (simp add: header_get_def lowercase_def lower_char_def)
next
  case False
  then show ?thesis
    by (simp add: handler_headers json_headers_get)
qed

theorem cors_headers_everywhere_witness:
  "header_get (resp_headers (out_response (fst (handler
      (stub_platform Map.empty (Inl (Rejected ''down''))) module_init
      \<lparr> req_method = ''POST'', req_json = Inl (Rejected ''no body'') \<rparr>))))
      ''Access-Control-Allow-Origin'' = Some ''*''
   \<and> header_get (resp_headers (out_response (fst (handler
      (stub_platform Map.empty (Inl (Rejected ''down''))) module_init
      \<lparr> req_method = ''POST'', req_json = Inl (Rejected ''no body'') \<rparr>))))
      ''Access-Control-Allow-Headers'' = Some ''authorization, x-client-info, apikey, content-type''
   \<and> header_get (resp_headers (out_response (fst (handler
      (stub_platform Map.empty (Inl (Rejected ''down''))) module_init
      \<lparr> req_method = ''POST'', req_json = Inl (Rejected ''no body'') \<rparr>))))
      ''Content-Type'' = Some ''application/json''"
  using cors_headers_everywhere
    [where req = "\<lparr> req_method = ''POST'', req_json = Inl (Rejected ''no body'') \<rparr>"
       and p = "stub_platform Map.empty (Inl (Rejected ''down''))"]
  by simp

theorem preflight_content_type_counterexample:
  "header_get
     (resp_headers (out_response (fst (handler
        (stub_platform Map.empty (Inl (Rejected ''down''))) module_init
        \<lparr> req_method = ''OPTIONS'', req_json = Inl (Rejected ''no body'') \<rparr>))))
     ''Content-Type'' \<noteq> Some ''application/json''"
  by (simp add: handler_def options_response_init header_get_def lowercase_def lower_char_def)

text \<open>
  C8. An invocation leaves the module's state as it found it, so a request gets the same
  outcome (status, headers, body, and effects) however many requests were served before
  it; in particular the same request served twice in a row gets the same outcome twice.
\<close>

theorem handler_stateless:
  "snd (handler p m req) = m
   \<and> serve p m (reqs @ [req, req]) =
       serve p m reqs @ [fst (handler p m req), fst (handler p m req)]"
proof
  show "snd (handler p m req) = m"
    by (rule handler_module)
  show "serve p m (reqs @ [req, req]) =
      serve p m reqs @ [fst (handler p m req), fst (handler p m req)]"
    by (induction reqs) (simp_all add: handler_module)
qed

theorem handler_stateless_witness:
  "snd (handler (stub_platform Map.empty (Inl (Rejected ''down''))) module_init
      \<lparr> req_method = ''POST'', req_json = Inr (JObj [(''message'', JStr ''Hello'')]) \<rparr>)
     = module_init
   \<and> serve (stub_platform Map.empty (Inl (Rejected ''down''))) module_init
       ([\<lparr> req_method = ''OPTIONS'', req_json = Inl (Rejected ''no body'') \<rparr>]
        @ [\<lparr> req_method = ''POST'', req_json = Inr (JObj [(''message'', JStr ''Hello'')]) \<rparr>,
           \<lparr> req_method = ''POST'', req_json = Inr (JObj [(''message'', JStr ''Hello'')]) \<rparr>])
     = serve (stub_platform Map.empty (Inl (Rejected ''down''))) module_init
         [\<lparr> req_method = ''OPTIONS'', req_json = Inl (Rejected ''no body'') \<rparr>]
       @ [fst (handler (stub_platform Map.empty (Inl (Rejected ''down''))) module_init
            \<lparr> req_method = ''POST'',
              req_json = Inr (JObj [(''message'', JStr ''Hello'')]) \<rparr>),
          fst (handler (stub_platform Map.empty (Inl (Rejected ''down''))) module_init
            \<lparr> req_method = ''POST'',
              req_json = Inr (JObj [(''message'', JStr ''Hello'')]) \<rparr>)]"
  by (rule handler_stateless)

end
